theory Spec2Isabelle
  imports Complex_Main
begin

section \<open>Strings and numbers of the source language\<close>

text \<open>
  A Python \<open>str\<close> is a \<open>string\<close>. Characters are ASCII: the case mapping, the digit
  test and the white space test below are those of Python on ASCII text, and code points
  beyond ASCII are left alone by all three.
\<close>

definition is_upper :: "char \<Rightarrow> bool" where
  "is_upper c = (65 \<le> (of_char c :: nat) \<and> (of_char c :: nat) \<le> 90)"

definition lower_char :: "char \<Rightarrow> char" where
  "lower_char c = (if is_upper c then char_of ((of_char c :: nat) + 32) else c)"

text \<open>\<open>s.lower()\<close>\<close>

definition lower :: "string \<Rightarrow> string" where
  "lower s = map lower_char s"

text \<open>\<open>s.startswith(p)\<close>\<close>

fun startswith :: "string \<Rightarrow> string \<Rightarrow> bool" where
  "startswith s [] = True"
| "startswith [] (p # ps) = False"
| "startswith (c # cs) (p # ps) = (c = p \<and> startswith cs ps)"

text \<open>\<open>sub in s\<close> on strings: \<open>sub\<close> occurs in \<open>s\<close> as a contiguous run.\<close>

fun str_in :: "string \<Rightarrow> string \<Rightarrow> bool" where
  "str_in sub [] = (sub = [])"
| "str_in sub (c # cs) = (startswith (c # cs) sub \<or> str_in sub cs)"

definition is_digit :: "char \<Rightarrow> bool" where
  "is_digit c = (48 \<le> (of_char c :: nat) \<and> (of_char c :: nat) \<le> 57)"

definition digit_val :: "char \<Rightarrow> nat" where
  "digit_val c = (of_char c :: nat) - 48"

text \<open>The number a string of digits denotes.\<close>

definition int_of_digits :: "string \<Rightarrow> int" where
  "int_of_digits ds = foldl (\<lambda>n c. 10 * n + int (digit_val c)) 0 ds"

text \<open>\<open>s.isdigit()\<close>: at least one character, and all of them digits.\<close>

definition isdigit :: "string \<Rightarrow> bool" where
  "isdigit s = (s \<noteq> [] \<and> list_all is_digit s)"

definition is_space :: "char \<Rightarrow> bool" where
  "is_space c = ((9 \<le> (of_char c :: nat) \<and> (of_char c :: nat) \<le> 13)
                 \<or> (28 \<le> (of_char c :: nat) \<and> (of_char c :: nat) \<le> 32))"

text \<open>\<open>s.strip()\<close>\<close>

definition strip :: "string \<Rightarrow> string" where
  "strip s = rev (dropWhile is_space (rev (dropWhile is_space s)))"

text \<open>
  The exceptions of the source: a class and the message \<open>str(e)\<close>. The classes are the
  ones the handlers of the source tell apart, and \<open>OtherException\<close> for every other
  subclass of \<open>Exception\<close>.
\<close>

datatype exn_class =
  TimeoutException | NoSuchElementException | WebDriverException
  | AttributeError | TypeError | ValueError | KeyError | OtherException

datatype exn = Exn (cls: exn_class) (msg: string)

text \<open>
  A Python \<open>float\<close> is its exact decimal value, an infinity (\<open>Inf True\<close> is the negative
  one) or not-a-number: the rounding of binary64 is not modelled. A count is an \<open>int\<close> or a
  \<open>float\<close>, as the source leaves it.
\<close>

datatype pyfloat = Finite rat | Inf bool | NaN

datatype number = PyInt int | PyFloat pyfloat

text \<open>\<open>x * k\<close> for a float \<open>x\<close> and a positive constant \<open>k\<close>.\<close>

fun fmul :: "pyfloat \<Rightarrow> rat \<Rightarrow> pyfloat" where
  "fmul (Finite r) k = Finite (r * k)"
| "fmul (Inf neg) k = Inf neg"
| "fmul NaN k = NaN"

text \<open>\<open>x > 0\<close> and \<open>x < 0\<close>; both are false of not-a-number.\<close>

fun positive :: "number \<Rightarrow> bool" where
  "positive (PyInt i) = (i > 0)"
| "positive (PyFloat (Finite r)) = (r > 0)"
| "positive (PyFloat (Inf neg)) = (\<not> neg)"
| "positive (PyFloat NaN) = False"


text \<open>
  \<open>float(s)\<close> on a string: white space around the text is dropped, then comes an
  optional sign and either \<open>inf\<close>, \<open>infinity\<close> or \<open>nan\<close> in any case, or a decimal
  number: digits with an optional point and an optional exponent, where single
  underscores may stand between digits. Anything else raises \<open>ValueError\<close>.
\<close>

fun digitpart :: "string \<Rightarrow> bool" where
  "digitpart [] = False"
| "digitpart [c] = is_digit c"
| "digitpart (c # d # cs) =
     (is_digit c \<and> (if d = CHR ''_'' then digitpart cs else digitpart (d # cs)))"

text \<open>The text before the first character that satisfies \<open>p\<close>, and the text after it if there is one.\<close>

definition split_at :: "(char \<Rightarrow> bool) \<Rightarrow> string \<Rightarrow> string \<times> string option" where
  "split_at p s =
     (takeWhile (\<lambda>c. \<not> p c) s,
      case dropWhile (\<lambda>c. \<not> p c) s of [] \<Rightarrow> None | _ # r \<Rightarrow> Some r)"

definition is_sign :: "char \<Rightarrow> bool" where
  "is_sign c = (c = CHR ''+'' \<or> c = CHR ''-'')"

text \<open>An optional sign: whether it is a minus, and the text after it.\<close>

definition split_sign :: "string \<Rightarrow> bool \<times> string" where
  "split_sign s =
     (case s of [] \<Rightarrow> (False, [])
      | c # cs \<Rightarrow> if is_sign c then (c = CHR ''-'', cs) else (False, c # cs))"

definition mantissa_ok :: "string \<Rightarrow> string option \<Rightarrow> bool" where
  "mantissa_ok ip fp =
     (case fp of None \<Rightarrow> digitpart ip
      | Some f \<Rightarrow> (ip = [] \<or> digitpart ip) \<and> (f = [] \<or> digitpart f) \<and> \<not> (ip = [] \<and> f = []))"

definition exponent_ok :: "string option \<Rightarrow> bool" where
  "exponent_ok ex = (case ex of None \<Rightarrow> True | Some x \<Rightarrow> digitpart (snd (split_sign x)))"

definition scale10 :: "rat \<Rightarrow> string option \<Rightarrow> rat" where
  "scale10 r ex =
     (case ex of None \<Rightarrow> r
      | Some x \<Rightarrow>
          (let n = nat (int_of_digits (filter is_digit (snd (split_sign x))))
           in if fst (split_sign x) then r / 10 ^ n else r * 10 ^ n))"

definition mantissa :: "string \<Rightarrow> string option \<Rightarrow> rat" where
  "mantissa ip fp =
     (let f = filter is_digit (case fp of None \<Rightarrow> [] | Some x \<Rightarrow> x)
      in of_int (int_of_digits (filter is_digit ip)) + of_int (int_of_digits f) / 10 ^ length f)"

definition decimal :: "string \<Rightarrow> rat option" where
  "decimal s =
     (let (m, ex) = split_at (\<lambda>c. c = CHR ''e'' \<or> c = CHR ''E'') s;
          (ip, fp) = split_at (\<lambda>c. c = CHR ''.'') m
      in if mantissa_ok ip fp \<and> exponent_ok ex then Some (scale10 (mantissa ip fp) ex) else None)"

definition py_float :: "string \<Rightarrow> exn + pyfloat" where
  "py_float s =
     (let (neg, u) = split_sign (strip s) in
      if lower u = ''inf'' \<or> lower u = ''infinity'' then Inr (Inf neg)
      else if lower u = ''nan'' then Inr NaN
      else (case decimal u of
              None \<Rightarrow> Inl (Exn ValueError s)
            | Some r \<Rightarrow> Inr (Finite (if neg then - r else r))))"

section \<open>The rendered document\<close>

text \<open>
  An element of the rendered page, as the browser driver hands it to the scraper: what
  \<open>get_attribute(name)\<close> gives (an attribute that is not there is \<open>None\<close>), what
  \<open>.text\<close> gives, and the elements \<open>find_elements\<close> finds below it for a CSS selector.
  Every call may raise instead.
\<close>

datatype element = Element
  (get_attribute: "string \<Rightarrow> exn + string option")
  (elem_text: "exn + string")
  (find_elements: "string \<Rightarrow> exn + element list")

text \<open>\<open>find_element\<close> gives the first match and raises \<open>NoSuchElementException\<close> when there is none.\<close>

definition find_element :: "element \<Rightarrow> string \<Rightarrow> exn + element" where
  "find_element e sel =
     (case find_elements e sel of
        Inl x \<Rightarrow> Inl x
      | Inr [] \<Rightarrow> Inl (Exn NoSuchElementException sel)
      | Inr (x # _) \<Rightarrow> Inr x)"

section \<open>Field extraction: \<open>extract_tweet_data\<close>\<close>

text \<open>The dictionary \<open>extract_tweet_data\<close> returns, one field per key (\<open>id\<close>, \<open>url\<close>, \<open>text\<close>,
  \<open>timestamp\<close>, \<open>replies\<close>, \<open>retweets\<close>, \<open>likes\<close>, \<open>photos\<close>).\<close>

record tweet =
  tweet_id :: string
  tweet_url :: string
  tweet_text :: string
  tweet_timestamp :: "string option"
  tweet_replies :: number
  tweet_retweets :: number
  tweet_likes :: number
  tweet_photos :: "string list"

text \<open>
  \<open>re.search(r"/status/(\d+)", permalink).group(1)\<close>: the digits after the first
  \<open>/status/\<close> that a digit follows; \<open>None\<close> when the pattern does not occur.
\<close>

fun search_status :: "string \<Rightarrow> string option" where
  "search_status [] = None"
| "search_status (c # cs) =
     (if startswith (c # cs) ''/status/'' \<and> takeWhile is_digit (drop 8 (c # cs)) \<noteq> []
      then Some (takeWhile is_digit (drop 8 (c # cs)))
      else search_status cs)"

text \<open>
  Lines 198 to 203. \<open>Inr None\<close> is the \<open>return None\<close> of the handler for
  \<open>NoSuchElementException\<close> and \<open>AttributeError\<close>; \<open>Inl\<close> is an exception the handler
  lets through (\<open>re.search\<close> on a missing \<open>href\<close> raises \<open>TypeError\<close>).
\<close>

definition extract_id :: "element \<Rightarrow> exn + (string \<times> string) option" where
  "extract_id article =
     (let r =
        (case find_element article ''a[href*='/status/']'' of
           Inl e \<Rightarrow> Inl e
         | Inr a \<Rightarrow>
             (case get_attribute a ''href'' of
                Inl e \<Rightarrow> Inl e
              | Inr None \<Rightarrow> Inl (Exn TypeError ''expected string or bytes-like object'')
              | Inr (Some permalink) \<Rightarrow>
                  (case search_status permalink of
                     None \<Rightarrow> Inl (Exn AttributeError ''group'')
                   | Some i \<Rightarrow> Inr (permalink, i))))
      in case r of
           Inl e \<Rightarrow>
             if cls e = NoSuchElementException \<or> cls e = AttributeError then Inr None else Inl e
         | Inr v \<Rightarrow> Inr (Some v))"

text \<open>Lines 206 to 211: a tweet without a text element has the empty text.\<close>

definition extract_text :: "element \<Rightarrow> exn + string" where
  "extract_text article =
     (let r = (case find_element article ''[data-testid='tweetText']'' of
                 Inl e \<Rightarrow> Inl e
               | Inr text_element \<Rightarrow> elem_text text_element)
      in case r of
           Inl e \<Rightarrow> if cls e = NoSuchElementException then Inr [] else Inl e
         | Inr t \<Rightarrow> Inr t)"

text \<open>Lines 214 to 218.\<close>

definition extract_timestamp :: "element \<Rightarrow> exn + string option" where
  "extract_timestamp article =
     (let r = (case find_element article ''time'' of
                 Inl e \<Rightarrow> Inl e
               | Inr time_element \<Rightarrow> get_attribute time_element ''datetime'')
      in case r of
           Inl e \<Rightarrow> if cls e = NoSuchElementException then Inr (Some []) else Inl e
         | Inr t \<Rightarrow> Inr t)"

subsection \<open>Engagement metrics\<close>

text \<open>
  \<open>re.search(r'(\d+(?:\.\d+)?[KMB]?)', aria_label)\<close>: from the first digit on, the run of
  digits, a point with the digits after it if at least one follows, and one of the letters
  K, M, B if it comes next.
\<close>

definition search_count :: "string \<Rightarrow> string option" where
  "search_count aria_label =
     (let r = dropWhile (\<lambda>c. \<not> is_digit c) aria_label in
      if r = [] then None
      else
        (let r1 = dropWhile is_digit r;
             frac = (case r1 of
                       [] \<Rightarrow> []
                     | c # r' \<Rightarrow>
                         if c = CHR ''.'' \<and> takeWhile is_digit r' \<noteq> []
                         then c # takeWhile is_digit r' else []);
             r2 = drop (length frac) r1;
             suffix = (case r2 of
                         [] \<Rightarrow> []
                       | c # _ \<Rightarrow>
                           if c = CHR ''K'' \<or> c = CHR ''M'' \<or> c = CHR ''B'' then [c] else [])
         in Some (takeWhile is_digit r @ frac @ suffix)))"

text \<open>
  Lines 235 to 249, the text of the count of one metric element: the text of its counter
  span, and when that is missing or empty, the first number in its \<open>aria-label\<close>. The two
  reads of the attribute give the same value.
\<close>

definition count_text_of :: "element \<Rightarrow> exn + string" where
  "count_text_of metric_element =
     (let m1 = (case find_element metric_element
                       ''span[data-testid='app-text-transition-container']'' of
                  Inl e \<Rightarrow> Inl e
                | Inr count_element \<Rightarrow> elem_text count_element)
      in case (case m1 of
                 Inl e \<Rightarrow> if cls e = NoSuchElementException then Inr [] else Inl e
               | Inr t \<Rightarrow> Inr t) of
           Inl e \<Rightarrow> Inl e
         | Inr count_text \<Rightarrow>
             if count_text = [] then
               (case get_attribute metric_element ''aria-label'' of
                  Inl e \<Rightarrow> Inl e
                | Inr None \<Rightarrow> Inr count_text
                | Inr (Some aria_label) \<Rightarrow>
                    if aria_label = [] then Inr count_text
                    else (case search_count aria_label of
                            None \<Rightarrow> Inr count_text
                          | Some t \<Rightarrow> Inr t))
             else Inr count_text)"

text \<open>\<open>float(count_text.replace(c, '')) * k\<close>\<close>

definition scaled :: "char \<Rightarrow> rat \<Rightarrow> string \<Rightarrow> exn + number" where
  "scaled c k count_text =
     (case py_float (filter (\<lambda>x. x \<noteq> c) count_text) of
        Inl e \<Rightarrow> Inl e
      | Inr f \<Rightarrow> Inr (PyFloat (fmul f k)))"

text \<open>Lines 253 to 260, on a count text that is not empty.\<close>

definition convert_count :: "string \<Rightarrow> exn + number" where
  "convert_count count_text =
     (if CHR ''K'' \<in> set count_text then scaled CHR ''K'' 1000 count_text
      else if CHR ''M'' \<in> set count_text then scaled CHR ''M'' 1000000 count_text
      else if CHR ''B'' \<in> set count_text then scaled CHR ''B'' 1000000000 count_text
      else Inr (PyInt (if isdigit count_text then int_of_digits count_text else 0)))"

text \<open>The dictionary \<open>metrics\<close>, from its keys to the counts.\<close>

type_synonym metrics = "string \<rightharpoonup> number"

definition initial_metrics :: metrics where
  "initial_metrics = [''replies'' \<mapsto> PyInt 0, ''retweets'' \<mapsto> PyInt 0, ''likes'' \<mapsto> PyInt 0]"

text \<open>
  Lines 232 to 265, the loop over the elements one selector finds: the first element
  whose count text is not empty and converts stores its count under \<open>key\<close> and ends the
  loop; an element that raises is passed over.
\<close>

fun scan_metric_elements :: "string \<Rightarrow> element list \<Rightarrow> metrics \<Rightarrow> metrics" where
  "scan_metric_elements key [] m = m"
| "scan_metric_elements key (metric_element # rest) m =
     (case count_text_of metric_element of
        Inl e \<Rightarrow> scan_metric_elements key rest m
      | Inr count_text \<Rightarrow>
          if count_text = [] then scan_metric_elements key rest m
          else (case convert_count count_text of
                  Inl e \<Rightarrow> scan_metric_elements key rest m
                | Inr count \<Rightarrow> m(key \<mapsto> count)))"

text \<open>
  Lines 229 to 270, the loop over the selectors of one metric. After the elements of a
  selector the loop ends if the count under \<open>key\<close> is positive; a selector that raises,
  and a \<open>key\<close> the dictionary does not hold (\<open>KeyError\<close>), go on to the next selector.
\<close>

fun try_selectors :: "element \<Rightarrow> string \<Rightarrow> string list \<Rightarrow> metrics \<Rightarrow> metrics" where
  "try_selectors article key [] m = m"
| "try_selectors article key (selector # rest) m =
     (case find_elements article selector of
        Inl e \<Rightarrow> try_selectors article key rest m
      | Inr metric_elements \<Rightarrow>
          (let m' = scan_metric_elements key metric_elements m in
           case m' key of
             None \<Rightarrow> try_selectors article key rest m'
           | Some v \<Rightarrow> if positive v then m' else try_selectors article key rest m'))"

text \<open>The dictionary of line 224, in the order of its items.\<close>

definition metric_selectors :: "(string \<times> string list) list" where
  "metric_selectors =
     [(''reply'', [''[data-testid='reply']'', ''[aria-label*='repl']'']),
      (''retweet'', [''[data-testid='retweet']'', ''[aria-label*='retweet']'']),
      (''like'', [''[data-testid='like']'', ''[aria-label*='like']''])]"

text \<open>Lines 221 to 272: the key of a metric is \<open>f"{metric}s"\<close>.\<close>

definition extract_metrics :: "element \<Rightarrow> metrics" where
  "extract_metrics article =
     foldl (\<lambda>m (metric, selector_list). try_selectors article (metric @ ''s'') selector_list m)
       initial_metrics metric_selectors"

text \<open>\<open>metrics.get(key, 0)\<close>\<close>

definition metrics_get :: "metrics \<Rightarrow> string \<Rightarrow> number" where
  "metrics_get m key = (case m key of None \<Rightarrow> PyInt 0 | Some v \<Rightarrow> v)"

subsection \<open>Media\<close>

text \<open>
  Lines 284 to 287, the loop over the images one selector finds. The result is the
  exception that ended the loop, if one did, and \<open>photos\<close> as it stands then.
\<close>

fun add_photos :: "element list \<Rightarrow> string list \<Rightarrow> exn option \<times> string list" where
  "add_photos [] photos = (None, photos)"
| "add_photos (img # rest) photos =
     (case get_attribute img ''src'' of
        Inl e \<Rightarrow> (Some e, photos)
      | Inr None \<Rightarrow> add_photos rest photos
      | Inr (Some src) \<Rightarrow>
          if src \<noteq> [] \<and> src \<notin> set photos
             \<and> \<not> str_in ''profile'' (lower src) \<and> \<not> str_in ''avatar'' (lower src)
          then add_photos rest (photos @ [src])
          else add_photos rest photos)"

text \<open>Lines 278 to 287, the loop over the selectors.\<close>

fun collect_photos :: "element \<Rightarrow> string list \<Rightarrow> string list \<Rightarrow> exn option \<times> string list" where
  "collect_photos article [] photos = (None, photos)"
| "collect_photos article (selector # rest) photos =
     (case find_elements article selector of
        Inl e \<Rightarrow> (Some e, photos)
      | Inr media_elements \<Rightarrow>
          (case add_photos media_elements photos of
             (Some e, photos') \<Rightarrow> (Some e, photos')
           | (None, photos') \<Rightarrow> collect_photos article rest photos'))"

text \<open>Lines 292 to 295, the loop over the images of the video players.\<close>

fun add_thumbnails :: "element list \<Rightarrow> string list \<Rightarrow> exn option \<times> string list" where
  "add_thumbnails [] photos = (None, photos)"
| "add_thumbnails (img # rest) photos =
     (case get_attribute img ''src'' of
        Inl e \<Rightarrow> (Some e, photos)
      | Inr None \<Rightarrow> add_thumbnails rest photos
      | Inr (Some src) \<Rightarrow>
          if src \<noteq> [] \<and> src \<notin> set photos
          then add_thumbnails rest (photos @ [src])
          else add_thumbnails rest photos)"

definition media_selectors :: "string list" where
  "media_selectors =
     [''img[src*='https://pbs.twimg.com/media/']'',
      ''img[src*='pbs.twimg.com/media']'',
      ''div[data-testid='tweetPhoto'] img'']"

text \<open>
  Lines 275 to 297. An exception anywhere in the block ends it, and \<open>photos\<close> keeps what
  was collected before.
\<close>

definition extract_photos :: "element \<Rightarrow> string list" where
  "extract_photos article =
     (case collect_photos article media_selectors [] of
        (Some e, photos) \<Rightarrow> photos
      | (None, photos) \<Rightarrow>
          if photos = [] then
            (case find_elements article ''div[data-testid='videoPlayer'] img'' of
               Inl e \<Rightarrow> photos
             | Inr video_elements \<Rightarrow> snd (add_thumbnails video_elements photos))
          else photos)"

subsection \<open>The record\<close>

text \<open>
  The body of \<open>extract_tweet_data\<close> inside its outer \<open>try\<close>: \<open>Inr None\<close> is the
  \<open>return None\<close> of line 203, \<open>Inl\<close> an exception that reaches the outer handler.
\<close>

definition extract_body :: "element \<Rightarrow> exn + tweet option" where
  "extract_body article =
     (case extract_id article of
        Inl e \<Rightarrow> Inl e
      | Inr None \<Rightarrow> Inr None
      | Inr (Some (permalink, i)) \<Rightarrow>
          (case extract_text article of
             Inl e \<Rightarrow> Inl e
           | Inr t \<Rightarrow>
               (case extract_timestamp article of
                  Inl e \<Rightarrow> Inl e
                | Inr ts \<Rightarrow>
                    (let m = extract_metrics article; ps = extract_photos article
                     in Inr (Some \<lparr>tweet_id = i, tweet_url = permalink, tweet_text = t,
                                   tweet_timestamp = ts,
                                   tweet_replies = metrics_get m ''replies'',
                                   tweet_retweets = metrics_get m ''retweets'',
                                   tweet_likes = metrics_get m ''likes'',
                                   tweet_photos = ps\<rparr>)))))"

text \<open>Lines 194 to 312: the outer handler turns every exception into \<open>None\<close>.\<close>

definition extract_tweet_data :: "element \<Rightarrow> tweet option" where
  "extract_tweet_data article = (case extract_body article of Inl e \<Rightarrow> None | Inr r \<Rightarrow> r)"

section \<open>The pagination loop: \<open>scrape_tweets\<close>\<close>

definition TWEET_LIMIT :: nat where
  "TWEET_LIMIT = 100"

definition max_scroll_attempts :: nat where
  "max_scroll_attempts = 30"

text \<open>
  Lines 136 to 143, one article of the scan, on the list \<open>tweets_data\<close>. Any exception
  of the block leaves the list as it is and the loop goes on with the next article.
\<close>

definition process_article :: "tweet list \<Rightarrow> element \<Rightarrow> tweet list" where
  "process_article tweets article =
     (case get_attribute article ''data-testid'' of
        Inl e \<Rightarrow> tweets
      | Inr v \<Rightarrow>
          if v = Some ''tweet'' then
            (case extract_tweet_data article of
               None \<Rightarrow> tweets
             | Some tweet \<Rightarrow>
                 if tweet_id tweet \<notin> set (map tweet_id tweets)
                 then tweets @ [tweet] else tweets)
          else tweets)"

text \<open>Lines 134 to 143.\<close>

definition scan_articles :: "tweet list \<Rightarrow> element list \<Rightarrow> tweet list" where
  "scan_articles tweets arts = foldl process_article tweets arts"

text \<open>
  What the browser answers in one pass of the loop, call by call: the scroll of line 124,
  the articles of line 130, the search for the "Show more" control and the click on it
  (lines 151 and 152; \<open>None\<close> when both succeed), the three reads of the document height
  (lines 165, 169 and 177) and the scrolls of lines 172 and 174. The sleeps are not
  modelled.
\<close>

record cycle =
  scroll :: "exn option"
  articles :: "exn + element list"
  show_more :: "exn option"
  height1 :: "exn + int"
  height2 :: "exn + int"
  rescroll :: "exn option"
  height3 :: "exn + int"

record loop_state =
  tweets_data :: "tweet list"
  last_height :: int
  scroll_attempts :: nat
  no_new_tweets_count :: nat

text \<open>How the loop ends: its condition fails, the \<open>break\<close> of line 160, the \<open>break\<close> of line 180,
  or an exception that leaves \<open>scrape_tweets\<close>.\<close>

datatype exit = LoopCondition | Exhausted | EndOfTimeline | Raised exn

text \<open>
  Lines 146 to 162, given the value of \<open>no_new_tweets_count\<close> before: whether the loop
  breaks, and the new value of the counter.
\<close>

definition check_new_tweets :: "cycle \<Rightarrow> nat \<Rightarrow> nat \<Rightarrow> nat \<Rightarrow> exn + (bool \<times> nat)" where
  "check_new_tweets c tweets_before tweets_now count =
     (if tweets_now = tweets_before then
        (let count1 = count + 1 in
         if count1 \<ge> 3 then
           (case show_more c of
              None \<Rightarrow> Inr (False, 0)
            | Some e \<Rightarrow>
                if cls e = NoSuchElementException
                then (if count1 \<ge> 5 then Inr (True, count1) else Inr (False, count1))
                else Inl e)
         else Inr (False, count1))
      else Inr (False, 0))"

text \<open>Lines 165 to 180: whether the loop breaks, and \<open>new_height\<close>.\<close>

definition check_height :: "cycle \<Rightarrow> int \<Rightarrow> exn + (bool \<times> int)" where
  "check_height c lh =
     (case height1 c of
        Inl e \<Rightarrow> Inl e
      | Inr h1 \<Rightarrow>
          if h1 = lh then
            (case height2 c of
               Inl e \<Rightarrow> Inl e
             | Inr h2 \<Rightarrow>
                 if h2 = lh then
                   (case rescroll c of
                      Some e \<Rightarrow> Inl e
                    | None \<Rightarrow>
                        (case height3 c of
                           Inl e \<Rightarrow> Inl e
                         | Inr h3 \<Rightarrow> Inr (h3 = lh, h3)))
                 else Inr (False, h2))
          else Inr (False, h1))"

text \<open>Lines 121 to 188, one pass of the loop body: how the loop ends in it, if it does, and the state after it.\<close>

definition cycle_step :: "cycle \<Rightarrow> loop_state \<Rightarrow> exit option \<times> loop_state" where
  "cycle_step c s =
     (let s1 = s\<lparr>scroll_attempts := scroll_attempts s + 1\<rparr> in
      case scroll c of
        Some e \<Rightarrow> (Some (Raised e), s1)
      | None \<Rightarrow>
          (case articles c of
             Inl e \<Rightarrow> (Some (Raised e), s1)
           | Inr arts \<Rightarrow>
               (let s2 = s1\<lparr>tweets_data := scan_articles (tweets_data s1) arts\<rparr> in
                case check_new_tweets c (length (tweets_data s)) (length (tweets_data s2))
                       (no_new_tweets_count s) of
                  Inl e \<Rightarrow> (Some (Raised e), s2)
                | Inr (stop, n) \<Rightarrow>
                    (let s3 = s2\<lparr>no_new_tweets_count := n\<rparr> in
                     if stop then (Some Exhausted, s3)
                     else
                       (case check_height c (last_height s3) of
                          Inl e \<Rightarrow> (Some (Raised e), s3)
                        | Inr (stop', h) \<Rightarrow>
                            if stop' then (Some EndOfTimeline, s3)
                            else (None, s3\<lparr>last_height := h\<rparr>))))))"

lemma cycle_step_attempts: "scroll_attempts (snd (cycle_step c s)) = scroll_attempts s + 1"
  by (simp add: cycle_step_def Let_def split: option.split sum.split prod.split)

text \<open>
  Lines 120 to 188. The browser's answers are a sequence of cycles, one for each pass;
  pass number \<open>n\<close> (from 0) reads \<open>env n\<close>.
\<close>

function scroll_loop :: "(nat \<Rightarrow> cycle) \<Rightarrow> loop_state \<Rightarrow> exit \<times> loop_state" where
  "scroll_loop env s =
     (if length (tweets_data s) < TWEET_LIMIT \<and> scroll_attempts s < max_scroll_attempts then
        (case cycle_step (env (scroll_attempts s)) s of
           (Some x, s') \<Rightarrow> (x, s')
         | (None, s') \<Rightarrow> scroll_loop env s')
      else (LoopCondition, s))"
  by pat_completeness auto
termination
proof (relation "measure (\<lambda>(env, s). max_scroll_attempts - scroll_attempts s)")
  show "wf (measure (\<lambda>(env, s). max_scroll_attempts - scroll_attempts s))"
    by simp
next
  fix env :: "nat \<Rightarrow> cycle" and s y :: loop_state and x :: "exit option"
  assume a: "length (tweets_data s) < TWEET_LIMIT \<and> scroll_attempts s < max_scroll_attempts"
    and b: "(x, y) = cycle_step (env (scroll_attempts s)) s"
  have "scroll_attempts y = scroll_attempts s + 1"
    using cycle_step_attempts [of "env (scroll_attempts s)" s] b
    by (metis snd_conv)
  with a show "((env, y), env, s) \<in> measure (\<lambda>(env, s). max_scroll_attempts - scroll_attempts s)"
    by auto
qed

declare scroll_loop.simps [simp del]

text \<open>
  What the browser answers for one timeline: the navigation of line 102, the wait of
  lines 106 to 108 (\<open>None\<close> when an article is there), the height of line 115 and the
  cycles of the loop.
\<close>

record page =
  navigate :: "exn option"
  wait_for_article :: "exn option"
  initial_height :: "exn + int"
  cycles :: "nat \<Rightarrow> cycle"

definition initial_state :: "int \<Rightarrow> loop_state" where
  "initial_state h =
     \<lparr>tweets_data = [], last_height = h, scroll_attempts = 0, no_new_tweets_count = 0\<rparr>"

text \<open>Lines 96 to 191.\<close>

definition scrape_tweets :: "page \<Rightarrow> exn + tweet list" where
  "scrape_tweets p =
     (case navigate p of
        Some e \<Rightarrow> Inl e
      | None \<Rightarrow>
          (case wait_for_article p of
             Some e \<Rightarrow> if cls e = TimeoutException then Inr [] else Inl e
           | None \<Rightarrow>
               (case initial_height p of
                  Inl e \<Rightarrow> Inl e
                | Inr h \<Rightarrow>
                    (case scroll_loop (cycles p) (initial_state h) of
                       (Raised e, s) \<Rightarrow> Inl e
                     | (_, s) \<Rightarrow> Inr (tweets_data s)))))"

section \<open>The batch: \<open>main\<close>\<close>

text \<open>An entry of \<open>COMPANIES\<close>, with its keys \<open>name\<close> and \<open>handle\<close>.\<close>

record company =
  company_name :: string
  twitter_handle :: string

definition COMPANIES :: "company list" where
  "COMPANIES =
     [\<lparr>company_name = ''Reliance Industries Ltd'', twitter_handle = ''RIL_Updates''\<rparr>,
      \<lparr>company_name = ''HDFC Bank Ltd'', twitter_handle = ''HDFC_Bank''\<rparr>,
      \<lparr>company_name = ''Tata Consultancy Services Ltd'', twitter_handle = ''TCS''\<rparr>,
      \<lparr>company_name = ''Bharti Airtel Ltd'', twitter_handle = ''airtelnews''\<rparr>,
      \<lparr>company_name = ''ICICI Bank Ltd'', twitter_handle = ''ICICIBank''\<rparr>,
      \<lparr>company_name = ''State Bank of India'', twitter_handle = ''TheOfficialSBI''\<rparr>,
      \<lparr>company_name = ''Infosys Ltd'', twitter_handle = ''Infosys''\<rparr>,
      \<lparr>company_name = ''Bajaj Finance Ltd'', twitter_handle = ''Bajaj_Finance''\<rparr>,
      \<lparr>company_name = ''Hindustan Unilever Ltd'', twitter_handle = ''HUL_News''\<rparr>,
      \<lparr>company_name = ''ITC Ltd'', twitter_handle = ''ITCCorpCom''\<rparr>,
      \<lparr>company_name = ''Larsen & Toubro Ltd'', twitter_handle = ''larsentoubro''\<rparr>,
      \<lparr>company_name = ''HCL Technologies Ltd'', twitter_handle = ''hcltech''\<rparr>,
      \<lparr>company_name = ''Kotak Mahindra Bank Ltd'', twitter_handle = ''KotakBankLtd''\<rparr>,
      \<lparr>company_name = ''Sun Pharmaceutical Industries Ltd'', twitter_handle = ''SunPharma_Live''\<rparr>,
      \<lparr>company_name = ''Maruti Suzuki India Ltd'', twitter_handle = ''Maruti_Corp''\<rparr>,
      \<lparr>company_name = ''Mahindra & Mahindra Ltd'', twitter_handle = ''MahindraRise''\<rparr>,
      \<lparr>company_name = ''Axis Bank Ltd'', twitter_handle = ''AxisBank''\<rparr>,
      \<lparr>company_name = ''UltraTech Cement Ltd'', twitter_handle = ''UltraTechCement''\<rparr>,
      \<lparr>company_name = ''NTPC Ltd'', twitter_handle = ''ntpclimited''\<rparr>,
      \<lparr>company_name = ''Bajaj Finserv Ltd'', twitter_handle = ''Bajaj_Finserv''\<rparr>]"

text \<open>
  What happens around one company's browser session: whether \<open>setup_driver\<close> and
  \<open>login_to_twitter\<close> raise, what the browser answers on the timeline, and what
  \<open>save_to_csv\<close> gives when it is called (the path of the file it wrote). Writing a row
  to the summary file, \<open>driver.quit\<close> and the delay between companies are not modelled as
  sources of exceptions.
\<close>

record session =
  setup_driver :: "exn option"
  login_to_twitter :: "exn option"
  timeline :: page
  save_to_csv :: "exn + string"

text \<open>A row of the summary file: company name, handle, file (or reason), tweet count, images count.\<close>

type_synonym summary_row = "string \<times> string \<times> string \<times> nat \<times> nat"

text \<open>Lines 510 to 542, the \<open>try\<close> block: the row it writes, or the exception that leaves it.\<close>

definition attempt :: "company \<Rightarrow> session \<Rightarrow> exn + summary_row" where
  "attempt c w =
     (case setup_driver w of
        Some e \<Rightarrow> Inl e
      | None \<Rightarrow>
          (case login_to_twitter w of
             Some e \<Rightarrow> Inl e
           | None \<Rightarrow>
               (case scrape_tweets (timeline w) of
                  Inl e \<Rightarrow> Inl e
                | Inr tweets \<Rightarrow>
                    if tweets \<noteq> [] then
                      (case save_to_csv w of
                         Inl e \<Rightarrow> Inl e
                       | Inr output_file \<Rightarrow>
                           Inr (company_name c, twitter_handle c, output_file, length tweets,
                                length (filter (\<lambda>t. tweet_photos t \<noteq> []) tweets)))
                    else Inr (company_name c, twitter_handle c, ''No tweets found'', 0, 0))))"

text \<open>Lines 509 to 550: the row one company adds to the summary.\<close>

definition process_company :: "company \<Rightarrow> session \<Rightarrow> summary_row" where
  "process_company c w =
     (case attempt c w of
        Inl e \<Rightarrow> (company_name c, twitter_handle c, ''Error: '' @ msg e, 0, 0)
      | Inr row \<Rightarrow> row)"

text \<open>Lines 498 to 563, the loop over the companies, on the rows of the summary file.\<close>

fun main_loop :: "(company \<times> session) list \<Rightarrow> summary_row list \<Rightarrow> summary_row list" where
  "main_loop [] summary = summary"
| "main_loop ((c, w) # rest) summary = main_loop rest (summary @ [process_company c w])"

text \<open>\<open>main\<close>: the rows under the header, when company number \<open>n\<close> meets the session \<open>world n\<close>.\<close>

definition main :: "(nat \<Rightarrow> session) \<Rightarrow> summary_row list" where
  "main world = main_loop (zip COMPANIES (map world [0..<length COMPANIES])) []"

section \<open>Sample documents\<close>

text \<open>An element with the given attributes and text, and nothing below it.\<close>

definition leaf :: "(string \<times> string) list \<Rightarrow> string \<Rightarrow> element" where
  "leaf attrs t = Element (\<lambda>n. Inr (map_of attrs n)) (Inr t) (\<lambda>sel. Inr [])"

text \<open>An element with the given attributes, no text of its own, and the given answers to selectors.\<close>

definition node :: "(string \<times> string) list \<Rightarrow> (string \<times> element list) list \<Rightarrow> element" where
  "node attrs found =
     Element (\<lambda>n. Inr (map_of attrs n)) (Inr [])
       (\<lambda>sel. Inr (case map_of found sel of None \<Rightarrow> [] | Some es \<Rightarrow> es))"

text \<open>A tweet article with a permalink and a text, and whatever else \<open>found\<close> lists.\<close>

definition tweet_article :: "string \<Rightarrow> string \<Rightarrow> (string \<times> element list) list \<Rightarrow> element" where
  "tweet_article href t found =
     node [(''data-testid'', ''tweet'')]
       ((''a[href*='/status/']'', [leaf [(''href'', href)] []])
        # (''[data-testid='tweetText']'', [leaf [] t]) # found)"


text \<open>A metric element whose counter span shows the text \<open>n\<close>.\<close>

definition metric_button :: "string \<Rightarrow> element" where
  "metric_button n =
     node [] [(''span[data-testid='app-text-transition-container']'', [leaf [] n])]"

text \<open>A tweet whose only media is a video player, with one thumbnail image.\<close>

definition video_article :: element where
  "video_article =
     tweet_article ''https://twitter.com/TCS/status/1'' ''clip''
       [(''div[data-testid='videoPlayer'] img'',
         [leaf [(''src'', ''https://pbs.twimg.com/amplify_video_thumb/1/img/avatar.jpg'')] []])]"

text \<open>A tweet whose reply button shows the count 5.\<close>

definition replied_article :: element where
  "replied_article =
     tweet_article ''https://twitter.com/TCS/status/2'' ''hello''
       [(''[data-testid='reply']'', [metric_button ''5''])]"

text \<open>A tweet whose like button shows the count 5.\<close>

definition liked_article :: element where
  "liked_article =
     tweet_article ''https://twitter.com/TCS/status/4'' ''nice''
       [(''[data-testid='like']'', [metric_button ''5''])]"


text \<open>A cycle in which the browser shows nothing new and the document does not grow.\<close>

definition idle_cycle :: cycle where
  "idle_cycle =
     \<lparr>scroll = None, articles = Inr [], show_more = None,
      height1 = Inr 0, height2 = Inr 0, rescroll = None, height3 = Inr 0\<rparr>"

text \<open>A cycle in which every call raises.\<close>

definition broken_cycle :: cycle where
  "broken_cycle =
     \<lparr>scroll = Some (Exn WebDriverException ''disconnected''),
      articles = Inl (Exn WebDriverException ''disconnected''),
      show_more = Some (Exn WebDriverException ''disconnected''),
      height1 = Inl (Exn WebDriverException ''disconnected''),
      height2 = Inl (Exn WebDriverException ''disconnected''),
      rescroll = Some (Exn WebDriverException ''disconnected''),
      height3 = Inl (Exn WebDriverException ''disconnected'')\<rparr>"

text \<open>
  A timeline that shows no article, always has a "Show more" control to click, and grows
  by 100 in every cycle.
\<close>

definition restless :: "nat \<Rightarrow> cycle" where
  "restless n =
     \<lparr>scroll = None, articles = Inr [], show_more = None,
      height1 = Inr (100 * (int n + 1)), height2 = Inr (100 * (int n + 1)), rescroll = None,
      height3 = Inr (100 * (int n + 1))\<rparr>"



text \<open>A tweet article of the account TCS with the status number \<open>i\<close> and the text \<open>t\<close>, without media or counts.\<close>

definition plain_tweet :: "string \<Rightarrow> string \<Rightarrow> element" where
  "plain_tweet i t = tweet_article (''https://twitter.com/TCS/status/'' @ i) t []"

text \<open>The record of \<open>plain_tweet i t\<close>.\<close>

definition plain_record :: "string \<Rightarrow> string \<Rightarrow> tweet" where
  "plain_record i t =
     \<lparr>tweet_id = i, tweet_url = ''https://twitter.com/TCS/status/'' @ i, tweet_text = t,
      tweet_timestamp = Some [], tweet_replies = PyInt 0, tweet_retweets = PyInt 0,
      tweet_likes = PyInt 0, tweet_photos = []\<rparr>"

text \<open>A cycle in which the browser shows the articles \<open>arts\<close> and reports the document height \<open>h\<close>.\<close>

definition scan_cycle :: "element list \<Rightarrow> int \<Rightarrow> cycle" where
  "scan_cycle arts h =
     \<lparr>scroll = None, articles = Inr arts,
      show_more = Some (Exn NoSuchElementException ''//span[contains(text(), 'Show more')]''),
      height1 = Inr h, height2 = Inr h, rescroll = None, height3 = Inr h\<rparr>"

text \<open>
  Three scan cycles: the first shows the tweets 1 and 2, the second the tweet 2 (with
  another text) and the tweet 3, the third the tweet 4; the document stops growing in the
  third.
\<close>

definition three_cycles :: "nat \<Rightarrow> cycle" where
  "three_cycles n =
     (if n = 0 then scan_cycle [plain_tweet ''1'' ''one'', plain_tweet ''2'' ''two''] 100
      else if n = 1 then scan_cycle [plain_tweet ''2'' ''two again'', plain_tweet ''3'' ''three''] 200
      else scan_cycle [plain_tweet ''4'' ''four''] 200)"

definition three_cycles_page :: page where
  "three_cycles_page =
     \<lparr>navigate = None, wait_for_article = None, initial_height = Inr 0, cycles = three_cycles\<rparr>"

text \<open>The status numbers 1, 11, 111, and so on: \<open>n\<close> of them.\<close>

definition ones :: "nat \<Rightarrow> string list" where
  "ones n = map (\<lambda>k. replicate (Suc k) CHR ''1'') [0..<n]"

text \<open>A timeline whose every scan shows the same 101 tweets, while the document grows.\<close>

definition burst :: "nat \<Rightarrow> cycle" where
  "burst n = scan_cycle (map (\<lambda>i. plain_tweet i []) (ones 101)) (100 * (int n + 1))"

definition burst_page :: page where
  "burst_page =
     \<lparr>navigate = None, wait_for_article = None, initial_height = Inr 0, cycles = burst\<rparr>"

text \<open>The state of the loop on \<open>burst\<close> after its first pass.\<close>

definition burst_state :: loop_state where
  "burst_state =
     \<lparr>tweets_data = map (\<lambda>i. plain_record i []) (ones 101), last_height = 100,
      scroll_attempts = 1, no_new_tweets_count = 0\<rparr>"


text \<open>A session in which the wait for the first article times out.\<close>

definition timeout_session :: session where
  "timeout_session =
     \<lparr>setup_driver = None, login_to_twitter = None,
      timeline = \<lparr>navigate = None,
                  wait_for_article = Some (Exn TimeoutException ''Message: ''),
                  initial_height = Inr 0, cycles = (\<lambda>n. idle_cycle)\<rparr>,
      save_to_csv = Inr []\<rparr>"

text \<open>A session in which the browser does not start.\<close>

definition crashed_session :: session where
  "crashed_session =
     \<lparr>setup_driver = Some (Exn WebDriverException ''Message: chrome not reachable''),
      login_to_twitter = None,
      timeline = \<lparr>navigate = None, wait_for_article = None, initial_height = Inr 0,
                  cycles = (\<lambda>n. idle_cycle)\<rparr>,
      save_to_csv = Inr []\<rparr>"

text \<open>A session that scrapes the four tweets of \<open>three_cycles\<close> and saves them.\<close>

definition good_session :: session where
  "good_session =
     \<lparr>setup_driver = None, login_to_twitter = None, timeline = three_cycles_page,
      save_to_csv = Inr ''company_tweets/tweets.csv''\<rparr>"

text \<open>A batch in which the first company times out, the second crashes and the others succeed.\<close>

definition sample_world :: "nat \<Rightarrow> session" where
  "sample_world n = (if n = 0 then timeout_session else if n = 1 then crashed_session else good_session)"

section \<open>Notions of the specification\<close>

text \<open>
  The exclusion filter of the media: an address passes when it contains neither "profile"
  nor "avatar", in any letter case.
\<close>

definition content_media :: "string \<Rightarrow> bool" where
  "content_media src = (\<not> str_in ''profile'' (lower src) \<and> \<not> str_in ''avatar'' (lower src))"

text \<open>The records a scan extracts from the candidate elements, in the order of the scan.\<close>

definition extracted :: "element list \<Rightarrow> tweet list" where
  "extracted arts =
     List.map_filter
       (\<lambda>a. if get_attribute a ''data-testid'' = Inr (Some ''tweet'')
            then extract_tweet_data a else None)
       arts"

text \<open>
  What the specification asks of the accepted records: of the records with the same
  identifier only the first is retained.
\<close>

fun keep_first :: "tweet list \<Rightarrow> tweet list" where
  "keep_first [] = []"
| "keep_first (t # ts) = t # keep_first (filter (\<lambda>u. tweet_id u \<noteq> tweet_id t) ts)"

text \<open>The candidate elements one pass of the loop scans: none when the pass raises before the scan.\<close>

definition scanned :: "cycle \<Rightarrow> element list" where
  "scanned c =
     (case scroll c of
        Some e \<Rightarrow> []
      | None \<Rightarrow> (case articles c of Inl e \<Rightarrow> [] | Inr arts \<Rightarrow> arts))"

text \<open>The candidate elements of the first \<open>n\<close> passes, in the order in which they are scanned.\<close>

definition seen :: "(nat \<Rightarrow> cycle) \<Rightarrow> nat \<Rightarrow> element list" where
  "seen env n = concat (map (\<lambda>k. scanned (env k)) [0..<n])"


section \<open>The media exclusion filter\<close>

lemma add_photos_content:
  "list_all content_media photos \<Longrightarrow> list_all content_media (snd (add_photos imgs photos))"
  by (induction imgs arbitrary: photos)
    (auto simp: content_media_def split: sum.splits option.splits)

lemma collect_photos_content:
  "list_all content_media photos
   \<Longrightarrow> list_all content_media (snd (collect_photos article sels photos))"
proof (induction sels arbitrary: photos)
  case Nil
  then show ?case by simp
next
  case (Cons sel sels)
  show ?case
  proof (cases "find_elements article sel")
    case (Inl e)
    then show ?thesis
      using Cons.prems by simp
  next
    case (Inr imgs)
    obtain r ps where a: "add_photos imgs photos = (r, ps)"
      by (cases "add_photos imgs photos")
    then have ps: "list_all content_media ps"
      using add_photos_content [OF Cons.prems, of imgs] by simp
    show ?thesis
      using Inr a ps Cons.IH [OF ps] by (cases r) simp_all
  qed
qed

text \<open>
  C1. No entry of \<open>photos\<close> contains "avatar" or "profile", on every path that collects
  media. The loop over the photo selectors makes the test (line 286), so what it collects
  passes the filter; the loop over the video thumbnails (line 294) does not make it. For the
  tweet \<open>video_article\<close>, which has no photo and one video thumbnail whose address
  contains "avatar", the record keeps that address.
\<close>

theorem video_thumbnail_not_filtered:
  "list_all content_media (snd (collect_photos article media_selectors []))
   \<and> map_option tweet_photos (extract_tweet_data video_article)
       = Some [''https://pbs.twimg.com/amplify_video_thumb/1/img/avatar.jpg'']
   \<and> \<not> content_media ''https://pbs.twimg.com/amplify_video_thumb/1/img/avatar.jpg''"
proof -
  have a: "list_all content_media (snd (collect_photos article media_selectors []))"
    by (rule collect_photos_content) simp
  have b: "map_option tweet_photos (extract_tweet_data video_article)
       = Some [''https://pbs.twimg.com/amplify_video_thumb/1/img/avatar.jpg'']"
    unfolding video_article_def by code_simp
  have c: "\<not> content_media ''https://pbs.twimg.com/amplify_video_thumb/1/img/avatar.jpg''"
    by code_simp
  from a b c show ?thesis
    by blast
qed

section \<open>The count of a metric\<close>

















section \<open>The strategies of a metric\<close>

lemma scan_metric_elements_other:
  "k \<noteq> key \<Longrightarrow> scan_metric_elements key es m k = m k"
  by (induction es) (auto split: sum.splits)

lemma try_selectors_other:
  "k \<noteq> key \<Longrightarrow> try_selectors article key sels m k = m k"
  by (induction sels arbitrary: m)
    (auto simp: Let_def scan_metric_elements_other split: sum.splits option.splits)

lemma extract_metrics_replies: "extract_metrics article ''replies'' = Some (PyInt 0)"
  by (simp add: extract_metrics_def metric_selectors_def initial_metrics_def try_selectors_other
      del: try_selectors.simps)

text \<open>
  C8. For each of the three metrics the first strategy that yields a positive count sets
  the metric. The loop stores the count of the metric \<open>reply\<close> under the key \<open>replys\<close>
  (\<open>f"{metric}s"\<close>), and the record reads the key \<open>replies\<close>: the replies of a record are 0
  whatever the document shows. The tweet \<open>replied_article\<close> shows 5 replies on the
  first strategy; the count 5 is stored under \<open>replys\<close> and the record has 0 replies.
  The tweet \<open>liked_article\<close> shows 5 likes in the same way, and its record has 5 likes.
\<close>

theorem replies_always_zero:
  "metrics_get (extract_metrics article) ''replies'' = PyInt 0
   \<and> extract_metrics replied_article ''replys'' = Some (PyInt 5)
   \<and> map_option tweet_replies (extract_tweet_data replied_article) = Some (PyInt 0)
   \<and> map_option tweet_likes (extract_tweet_data liked_article) = Some (PyInt 5)"
proof -
  have a: "metrics_get (extract_metrics article) ''replies'' = PyInt 0"
    by (simp add: metrics_get_def extract_metrics_replies)
  have b: "extract_metrics replied_article ''replys'' = Some (PyInt 5)"
    unfolding replied_article_def metric_button_def by code_simp
  have c: "map_option tweet_replies (extract_tweet_data replied_article) = Some (PyInt 0)"
    unfolding replied_article_def metric_button_def by code_simp
  have d: "map_option tweet_likes (extract_tweet_data liked_article) = Some (PyInt 5)"
    unfolding liked_article_def metric_button_def by code_simp
  from a b c d show ?thesis
    by blast
qed

section \<open>Termination of the pagination loop\<close>

lemma scroll_loop_stop:
  "\<not> (length (tweets_data s) < TWEET_LIMIT \<and> scroll_attempts s < max_scroll_attempts)
   \<Longrightarrow> scroll_loop env s = (LoopCondition, s)"
  by (subst scroll_loop.simps, rule if_not_P)

lemma scroll_loop_step:
  "length (tweets_data s) < TWEET_LIMIT \<and> scroll_attempts s < max_scroll_attempts
   \<Longrightarrow> scroll_loop env s =
       (case cycle_step (env (scroll_attempts s)) s of
          (Some x, s') \<Rightarrow> (x, s')
        | (None, s') \<Rightarrow> scroll_loop env s')"
  by (subst scroll_loop.simps, rule if_P)

lemma scroll_loop_attempts:
  "scroll_attempts s \<le> max_scroll_attempts
   \<Longrightarrow> scroll_attempts (snd (scroll_loop env s)) \<le> max_scroll_attempts"
proof (induction env s rule: scroll_loop.induct)
  case (1 env s)
  show ?case
  proof (cases "length (tweets_data s) < TWEET_LIMIT \<and> scroll_attempts s < max_scroll_attempts")
    case False
    show ?thesis
      using "1.prems" by (simp add: scroll_loop_stop [OF False])
  next
    case True
    obtain x s' where step: "cycle_step (env (scroll_attempts s)) s = (x, s')"
      by (cases "cycle_step (env (scroll_attempts s)) s")
    have n: "scroll_attempts s' = scroll_attempts s + 1"
      using cycle_step_attempts [of "env (scroll_attempts s)" s] step by simp
    then have le: "scroll_attempts s' \<le> max_scroll_attempts"
      using True by simp
    show ?thesis
    proof (cases x)
      case None
      then have "scroll_loop env s = scroll_loop env s'"
        using step by (simp add: scroll_loop_step [OF True])
      moreover have "scroll_attempts (snd (scroll_loop env s')) \<le> max_scroll_attempts"
        using "1.IH" [OF True step [symmetric] None le] .
      ultimately show ?thesis
        by simp
    next
      case (Some r)
      then have "scroll_loop env s = (r, s')"
        using step by (simp add: scroll_loop_step [OF True])
      then show ?thesis
        using le by simp
    qed
  qed
qed

lemma scroll_loop_cong:
  "\<forall>n < max_scroll_attempts. env n = env' n \<Longrightarrow> scroll_loop env s = scroll_loop env' s"
proof (induction env s rule: scroll_loop.induct)
  case (1 env s)
  show ?case
  proof (cases "length (tweets_data s) < TWEET_LIMIT \<and> scroll_attempts s < max_scroll_attempts")
    case False
    show ?thesis
      by (simp add: scroll_loop_stop [OF False])
  next
    case True
    then have same: "env (scroll_attempts s) = env' (scroll_attempts s)"
      using "1.prems" by simp
    obtain x s' where step: "cycle_step (env (scroll_attempts s)) s = (x, s')"
      by (cases "cycle_step (env (scroll_attempts s)) s")
    show ?thesis
    proof (cases x)
      case None
      have "scroll_loop env s' = scroll_loop env' s'"
        using "1.IH" [OF True step [symmetric] None "1.prems"] .
      then show ?thesis
        using step None same
        by (simp add: scroll_loop_step [OF True, of env] scroll_loop_step [OF True, of env'])
    next
      case (Some r)
      then show ?thesis
        using step same
        by (simp add: scroll_loop_step [OF True, of env] scroll_loop_step [OF True, of env'])
    qed
  qed
qed

text \<open>
  C3. Whatever the browser answers, the loop of \<open>scrape_tweets\<close> ends (the function
  \<open>scroll_loop\<close> is total) after at most \<open>max_scroll_attempts\<close> = 30 passes: the counter of
  passes is at most 30 when it ends, and the result depends on the answers of the first 30
  passes only.
\<close>

theorem scroll_loop_bounded:
  "scroll_attempts (snd (scroll_loop env (initial_state h))) \<le> max_scroll_attempts
   \<and> max_scroll_attempts = 30
   \<and> ((\<forall>n < max_scroll_attempts. env n = env' n)
        \<longrightarrow> scroll_loop env (initial_state h) = scroll_loop env' (initial_state h))"
proof -
  have "scroll_attempts (initial_state h) \<le> max_scroll_attempts"
    by (simp add: initial_state_def)
  then have "scroll_attempts (snd (scroll_loop env (initial_state h))) \<le> max_scroll_attempts"
    by (rule scroll_loop_attempts)
  moreover have "(\<forall>n < max_scroll_attempts. env n = env' n)
        \<longrightarrow> scroll_loop env (initial_state h) = scroll_loop env' (initial_state h)"
    using scroll_loop_cong [of env env' "initial_state h"] by blast
  ultimately show ?thesis
    by (simp add: max_scroll_attempts_def)
qed

theorem scroll_loop_bounded_witness:
  "scroll_attempts (snd (scroll_loop restless (initial_state 0))) \<le> max_scroll_attempts
   \<and> scroll_loop restless (initial_state 0)
       = scroll_loop (\<lambda>n. if n < 30 then restless n else broken_cycle) (initial_state 0)
   \<and> scroll_loop restless (initial_state 0)
       = (LoopCondition, \<lparr>tweets_data = [], last_height = 3000, scroll_attempts = 30,
                           no_new_tweets_count = 0\<rparr>)"
proof -
  have "\<forall>n < max_scroll_attempts.
          restless n = (\<lambda>n. if n < 30 then restless n else broken_cycle) n"
    by (simp add: max_scroll_attempts_def)
  moreover have "scroll_loop restless (initial_state 0)
       = (LoopCondition, \<lparr>tweets_data = [], last_height = 3000, scroll_attempts = 30,
                           no_new_tweets_count = 0\<rparr>)"
    by code_simp
  ultimately show ?thesis
    using scroll_loop_bounded [of restless 0 "\<lambda>n. if n < 30 then restless n else broken_cycle"]
    by blast
qed

section \<open>The exhaustion exit\<close>







section \<open>Deduplication by identifier\<close>

lemma extracted_Nil: "extracted [] = []"
  by (simp add: extracted_def map_filter_simps)

lemma extracted_Cons:
  "extracted (a # arts) =
     (if get_attribute a ''data-testid'' = Inr (Some ''tweet'')
      then (case extract_tweet_data a of None \<Rightarrow> extracted arts | Some t \<Rightarrow> t # extracted arts)
      else extracted arts)"
  by (simp add: extracted_def map_filter_simps split: option.split)

lemma process_article_cases:
  "process_article tweets a =
     (if get_attribute a ''data-testid'' = Inr (Some ''tweet'')
      then (case extract_tweet_data a of
              None \<Rightarrow> tweets
            | Some t \<Rightarrow> if tweet_id t \<in> tweet_id ` set tweets then tweets else tweets @ [t])
      else tweets)"
  by (auto simp: process_article_def split: sum.splits option.splits)

lemma scan_articles_Nil: "scan_articles tweets [] = tweets"
  by (simp add: scan_articles_def)

lemma scan_articles_Cons:
  "scan_articles tweets (a # arts) = scan_articles (process_article tweets a) arts"
  by (simp add: scan_articles_def)

lemma scan_articles_append:
  "scan_articles tweets (xs @ ys) = scan_articles (scan_articles tweets xs) ys"
  by (simp add: scan_articles_def)

lemma filter_new_snoc:
  "filter (\<lambda>u. tweet_id u \<noteq> tweet_id t \<and> tweet_id u \<notin> tweet_id ` set tweets) ts
     = filter (\<lambda>u. tweet_id u \<noteq> tweet_id t) (filter (\<lambda>u. tweet_id u \<notin> tweet_id ` set tweets) ts)"
  by (induction ts) auto

lemma scan_articles_keep_first:
  "scan_articles tweets arts
     = tweets @ keep_first (filter (\<lambda>u. tweet_id u \<notin> tweet_id ` set tweets) (extracted arts))"
proof (induction arts arbitrary: tweets)
  case Nil
  then show ?case
    by (simp add: scan_articles_Nil extracted_Nil)
next
  case (Cons a arts)
  show ?case
  proof (cases "get_attribute a ''data-testid'' = Inr (Some ''tweet'')")
    case False
    then show ?thesis
      by (simp add: scan_articles_Cons process_article_cases extracted_Cons Cons.IH)
  next
    case True
    show ?thesis
    proof (cases "extract_tweet_data a")
      case None
      then show ?thesis
        using True by (simp add: scan_articles_Cons process_article_cases extracted_Cons Cons.IH)
    next
      case (Some t)
      show ?thesis
      proof (cases "tweet_id t \<in> tweet_id ` set tweets")
        case old: True
        then show ?thesis
          using True Some
          by (simp add: scan_articles_Cons process_article_cases extracted_Cons Cons.IH)
      next
        case new: False
        have "scan_articles tweets (a # arts) = scan_articles (tweets @ [t]) arts"
          using True Some new by (simp add: scan_articles_Cons process_article_cases)
        also have "\<dots> = (tweets @ [t])
            @ keep_first (filter (\<lambda>u. tweet_id u \<notin> tweet_id ` set (tweets @ [t])) (extracted arts))"
          by (rule Cons.IH)
        also have "\<dots> = tweets
            @ keep_first (filter (\<lambda>u. tweet_id u \<notin> tweet_id ` set tweets) (extracted (a # arts)))"
          using True Some new by (simp add: extracted_Cons filter_new_snoc del: filter_filter)
        finally show ?thesis .
      qed
    qed
  qed
qed

lemma seen_Suc: "seen env (Suc n) = seen env n @ scanned (env n)"
  by (simp add: seen_def)

lemma cycle_step_tweets:
  "tweets_data (snd (cycle_step c s)) = scan_articles (tweets_data s) (scanned c)"
  by (simp add: cycle_step_def scanned_def Let_def scan_articles_Nil
      split: option.split sum.split prod.split)

lemma scroll_loop_tweets:
  "tweets_data s = scan_articles [] (seen env (scroll_attempts s))
   \<Longrightarrow> tweets_data (snd (scroll_loop env s))
       = scan_articles [] (seen env (scroll_attempts (snd (scroll_loop env s))))"
proof (induction env s rule: scroll_loop.induct)
  case (1 env s)
  show ?case
  proof (cases "length (tweets_data s) < TWEET_LIMIT \<and> scroll_attempts s < max_scroll_attempts")
    case False
    show ?thesis
      using "1.prems" by (simp add: scroll_loop_stop [OF False])
  next
    case True
    obtain x s1 where step: "cycle_step (env (scroll_attempts s)) s = (x, s1)"
      by (cases "cycle_step (env (scroll_attempts s)) s")
    have n: "scroll_attempts s1 = Suc (scroll_attempts s)"
      using cycle_step_attempts [of "env (scroll_attempts s)" s] step by simp
    have "tweets_data s1 = scan_articles (tweets_data s) (scanned (env (scroll_attempts s)))"
      using cycle_step_tweets [of "env (scroll_attempts s)" s] step by simp
    then have inv: "tweets_data s1 = scan_articles [] (seen env (scroll_attempts s1))"
      using "1.prems" by (simp add: n seen_Suc scan_articles_append)
    show ?thesis
    proof (cases x)
      case None
      then have "scroll_loop env s = scroll_loop env s1"
        using step by (simp add: scroll_loop_step [OF True])
      then show ?thesis
        using "1.IH" [OF True step [symmetric] None inv] by simp
    next
      case (Some r)
      then have "scroll_loop env s = (r, s1)"
        using step by (simp add: scroll_loop_step [OF True])
      then show ?thesis
        using inv by simp
    qed
  qed
qed

text \<open>
  C2. Within one run the accepted records are the extracted records in the order of the
  scans, with only the first record of each identifier retained. Three scan cycles that
  yield the identifiers 1, 2, then 2, 3, then 4 give the records 1, 2, 3, 4 in this
  order, and the record 2 is the one of the first cycle.
\<close>

theorem first_record_retained:
  "tweets_data (snd (scroll_loop env (initial_state h)))
     = keep_first (extracted (seen env (scroll_attempts (snd (scroll_loop env (initial_state h))))))
   \<and> map tweet_id (extracted (seen three_cycles 3)) = [''1'', ''2'', ''2'', ''3'', ''4'']
   \<and> scrape_tweets three_cycles_page
       = Inr [plain_record ''1'' ''one'', plain_record ''2'' ''two'',
              plain_record ''3'' ''three'', plain_record ''4'' ''four'']"
proof -
  have "tweets_data (initial_state h) = scan_articles [] (seen env (scroll_attempts (initial_state h)))"
    by (simp add: initial_state_def seen_def scan_articles_Nil)
  then have "tweets_data (snd (scroll_loop env (initial_state h)))
     = scan_articles [] (seen env (scroll_attempts (snd (scroll_loop env (initial_state h)))))"
    by (rule scroll_loop_tweets)
  then have a: "tweets_data (snd (scroll_loop env (initial_state h)))
     = keep_first (extracted (seen env (scroll_attempts (snd (scroll_loop env (initial_state h))))))"
    by (simp add: scan_articles_keep_first)
  have b: "map tweet_id (extracted (seen three_cycles 3)) = [''1'', ''2'', ''2'', ''3'', ''4'']"
    by code_simp
  have c: "scrape_tweets three_cycles_page
       = Inr [plain_record ''1'' ''one'', plain_record ''2'' ''two'',
              plain_record ''3'' ''three'', plain_record ''4'' ''four'']"
    by code_simp
  from a b c show ?thesis
    by blast
qed

section \<open>The ceiling on the number of records\<close>

lemma keep_first_distinct: "distinct (map tweet_id ts) \<Longrightarrow> keep_first ts = ts"
proof (induction ts)
  case Nil
  then show ?case by simp
next
  case (Cons t ts)
  then have "filter (\<lambda>u. tweet_id u \<noteq> tweet_id t) ts = ts"
    by (fastforce simp: filter_id_conv image_iff)
  with Cons show ?case
    by simp
qed

lemma search_status_plain:
  assumes "isdigit i"
  shows "search_status (''https://twitter.com/TCS/status/'' @ i) = Some i"
proof -
  obtain d ds where i: "i = d # ds" and d: "is_digit d" and ds: "takeWhile is_digit ds = ds"
    using assms by (cases i) (auto simp: isdigit_def list_all_iff)
  show ?thesis
    unfolding i using d ds by simp
qed

lemma extract_plain_tweet:
  assumes "isdigit i"
  shows "extract_tweet_data (plain_tweet i t) = Some (plain_record i t)"
proof -
  have id: "extract_id (plain_tweet i t) = Inr (Some (''https://twitter.com/TCS/status/'' @ i, i))"
    using search_status_plain [OF assms]
    by (simp add: extract_id_def plain_tweet_def tweet_article_def node_def leaf_def
        find_element_def del: search_status.simps)
  have tx: "extract_text (plain_tweet i t) = Inr t"
    by (simp add: extract_text_def plain_tweet_def tweet_article_def node_def leaf_def
        find_element_def)
  have ts: "extract_timestamp (plain_tweet i t) = Inr (Some [])"
    by (simp add: extract_timestamp_def plain_tweet_def tweet_article_def node_def leaf_def
        find_element_def)
  have m: "extract_metrics (plain_tweet i t) = initial_metrics"
    by (simp add: extract_metrics_def metric_selectors_def plain_tweet_def tweet_article_def
        node_def leaf_def initial_metrics_def)
  have ph: "extract_photos (plain_tweet i t) = []"
    by (simp add: extract_photos_def media_selectors_def plain_tweet_def tweet_article_def
        node_def leaf_def)
  show ?thesis
    by (simp add: extract_tweet_data_def extract_body_def id tx ts m ph plain_record_def
        metrics_get_def initial_metrics_def)
qed

lemma testid_plain_tweet: "get_attribute (plain_tweet i t) ''data-testid'' = Inr (Some ''tweet'')"
  by (simp add: plain_tweet_def tweet_article_def node_def)

lemma extracted_plain_tweets:
  "list_all isdigit ids \<Longrightarrow> extracted (map (\<lambda>i. plain_tweet i t) ids) = map (\<lambda>i. plain_record i t) ids"
  by (induction ids) (simp_all add: extracted_Nil extracted_Cons testid_plain_tweet extract_plain_tweet)

lemma scan_plain_tweets:
  assumes "list_all isdigit ids" and "distinct ids"
  shows "scan_articles [] (map (\<lambda>i. plain_tweet i t) ids) = map (\<lambda>i. plain_record i t) ids"
proof -
  have "map tweet_id (map (\<lambda>i. plain_record i t) ids) = ids"
    by (induction ids) (simp_all add: plain_record_def)
  then have "keep_first (map (\<lambda>i. plain_record i t) ids) = map (\<lambda>i. plain_record i t) ids"
    using assms(2) by (simp add: keep_first_distinct)
  then show ?thesis
    by (simp add: scan_articles_keep_first extracted_plain_tweets [OF assms(1)])
qed

lemma ones_digits: "list_all isdigit (ones n)"
proof -
  have d: "is_digit CHR ''1''"
    by code_simp
  have "isdigit (replicate (Suc k) CHR ''1'')" for k
    using d by (simp add: isdigit_def list_all_iff)
  then show ?thesis
    by (simp add: ones_def list_all_iff)
qed

lemma ones_distinct: "distinct (ones n)"
proof -
  have "inj_on (\<lambda>k. replicate (Suc k) CHR ''1'') (set [0..<n])"
  proof (rule inj_onI)
    fix x y :: nat
    assume "replicate (Suc x) CHR ''1'' = replicate (Suc y) CHR ''1''"
    then have "length (replicate (Suc x) CHR ''1'') = length (replicate (Suc y) CHR ''1'')"
      by (rule arg_cong)
    then show "x = y"
      by simp
  qed
  then show ?thesis
    unfolding ones_def by (simp only: distinct_map distinct_upt simp_thms)
qed

lemma ones_length: "length (ones n) = n"
  by (simp add: ones_def)

lemma burst_scan:
  "scan_articles [] (map (\<lambda>i. plain_tweet i []) (ones 101)) = map (\<lambda>i. plain_record i []) (ones 101)"
  by (rule scan_plain_tweets [OF ones_digits ones_distinct])

lemma burst_step: "cycle_step (burst 0) (initial_state 0) = (None, burst_state)"
proof -
  have "ones 101 \<noteq> []"
    using ones_length [of 101] by auto
  then show ?thesis
    by (simp add: cycle_step_def burst_def scan_cycle_def initial_state_def burst_state_def
        burst_scan check_new_tweets_def check_height_def ones_length)
qed

lemma burst_loop: "scroll_loop burst (initial_state 0) = (LoopCondition, burst_state)"
proof -
  have go: "length (tweets_data (initial_state 0)) < TWEET_LIMIT
            \<and> scroll_attempts (initial_state 0) < max_scroll_attempts"
    by (simp add: initial_state_def TWEET_LIMIT_def max_scroll_attempts_def)
  have stop: "\<not> (length (tweets_data burst_state) < TWEET_LIMIT
            \<and> scroll_attempts burst_state < max_scroll_attempts)"
    by (simp add: burst_state_def TWEET_LIMIT_def ones_length)
  have a0: "scroll_attempts (initial_state 0) = 0"
    by (simp add: initial_state_def)
  have "scroll_loop burst (initial_state 0) = scroll_loop burst burst_state"
    unfolding scroll_loop_step [OF go] a0 burst_step by simp
  then show ?thesis
    by (simp add: scroll_loop_stop [OF stop])
qed

lemma cycle_step_appends:
  "tweets_data (snd (cycle_step c s))
     = tweets_data s
       @ keep_first (filter (\<lambda>u. tweet_id u \<notin> tweet_id ` set (tweets_data s))
                       (extracted (scanned c)))"
  by (simp add: cycle_step_tweets scan_articles_keep_first)

text \<open>
  C10. The ceiling \<open>TWEET_LIMIT\<close> = 100 is tested only where a pass of the loop begins: a
  state that holds 100 records or more ends the loop. Within a pass every extracted record
  with a new identifier is appended, the first of each identifier, however many there are,
  and \<open>scrape_tweets\<close> returns the list as it is: on a timeline whose first scan shows 101
  tweets it returns 101 records.
\<close>

theorem ceiling_between_cycles:
  "(TWEET_LIMIT \<le> length (tweets_data s) \<longrightarrow> scroll_loop env s = (LoopCondition, s))
   \<and> tweets_data (snd (cycle_step c s))
       = tweets_data s
         @ keep_first (filter (\<lambda>u. tweet_id u \<notin> tweet_id ` set (tweets_data s))
                         (extracted (scanned c)))
   \<and> TWEET_LIMIT = 100
   \<and> scrape_tweets burst_page = Inr (map (\<lambda>i. plain_record i []) (ones 101))
   \<and> length (map (\<lambda>i. plain_record i []) (ones 101)) = 101"
proof -
  have a: "TWEET_LIMIT \<le> length (tweets_data s) \<longrightarrow> scroll_loop env s = (LoopCondition, s)"
    using scroll_loop_stop [of s env] by auto
  have b: "scrape_tweets burst_page = Inr (map (\<lambda>i. plain_record i []) (ones 101))"
    by (simp add: scrape_tweets_def burst_page_def burst_loop burst_state_def)
  from a b cycle_step_appends [of c s] show ?thesis
    by (simp add: TWEET_LIMIT_def ones_length)
qed

theorem ceiling_between_cycles_witness:
  "TWEET_LIMIT \<le> length (tweets_data burst_state)
   \<and> scroll_loop burst burst_state = (LoopCondition, burst_state)"
proof -
  have "TWEET_LIMIT \<le> length (tweets_data burst_state)"
    by (simp add: burst_state_def TWEET_LIMIT_def ones_length)
  with ceiling_between_cycles [of burst_state burst] show ?thesis
    by blast
qed

section \<open>Faults of one candidate element\<close>






section \<open>The rows of the summary\<close>

lemma main_loop_rows:
  "main_loop xs summary = summary @ map (\<lambda>(c, w). process_company c w) xs"
  by (induction xs arbitrary: summary) auto

lemma main_length: "length (main world) = length COMPANIES"
  by (simp add: main_def main_loop_rows)

lemma main_nth:
  assumes "k < length COMPANIES"
  shows "main world ! k = process_company (COMPANIES ! k) (world k)"
  using assms by (simp add: main_def main_loop_rows)

lemma scrape_tweets_timeout:
  assumes "navigate p = None" and "map_option cls (wait_for_article p) = Some TimeoutException"
  shows "scrape_tweets p = Inr []"
  using assms by (auto simp: scrape_tweets_def split: option.splits)

text \<open>
  C7. If the wait for the first article times out, \<open>scrape_tweets\<close> returns the empty
  list, and the batch writes the row "No tweets found" with the counts 0 and 0 for that
  company; the batch goes on: it writes one row for every company, each the row of that
  company's own session.
\<close>

theorem load_timeout_row:
  assumes "k < length COMPANIES"
    and "setup_driver (world k) = None" and "login_to_twitter (world k) = None"
    and "navigate (timeline (world k)) = None"
    and "map_option cls (wait_for_article (timeline (world k))) = Some TimeoutException"
  shows "scrape_tweets (timeline (world k)) = Inr []
         \<and> main world ! k
             = (company_name (COMPANIES ! k), twitter_handle (COMPANIES ! k),
                ''No tweets found'', 0, 0)
         \<and> length (main world) = length COMPANIES
         \<and> (\<forall>j < length COMPANIES. main world ! j = process_company (COMPANIES ! j) (world j))"
proof -
  have e: "scrape_tweets (timeline (world k)) = Inr []"
    using assms(4,5) by (rule scrape_tweets_timeout)
  then have "process_company (COMPANIES ! k) (world k)
     = (company_name (COMPANIES ! k), twitter_handle (COMPANIES ! k), ''No tweets found'', 0, 0)"
    using assms(2,3) by (simp add: process_company_def attempt_def)
  then show ?thesis
    using e main_nth [OF assms(1), of world] main_nth [of _ world] main_length [of world]
    by simp
qed

theorem load_timeout_row_witness:
  "scrape_tweets (timeline (sample_world 0)) = Inr []
   \<and> main sample_world ! 0 = (''Reliance Industries Ltd'', ''RIL_Updates'', ''No tweets found'', 0, 0)
   \<and> length (main sample_world) = 20
   \<and> main sample_world ! 2
       = (''Tata Consultancy Services Ltd'', ''TCS'', ''company_tweets/tweets.csv'', 4, 0)"
proof -
  have k: "0 < length COMPANIES" and n: "length COMPANIES = 20"
    by (simp_all add: COMPANIES_def)
  have a: "setup_driver (sample_world 0) = None" "login_to_twitter (sample_world 0) = None"
    "navigate (timeline (sample_world 0)) = None"
    "map_option cls (wait_for_article (timeline (sample_world 0))) = Some TimeoutException"
    by (simp_all add: sample_world_def timeout_session_def)
  have c: "COMPANIES ! 0 = \<lparr>company_name = ''Reliance Industries Ltd'', twitter_handle = ''RIL_Updates''\<rparr>"
    by (simp add: COMPANIES_def)
  have d: "process_company (COMPANIES ! 2) (sample_world 2)
       = (''Tata Consultancy Services Ltd'', ''TCS'', ''company_tweets/tweets.csv'', 4, 0)"
    by code_simp
  have two: "(2::nat) < length COMPANIES"
    by (simp add: COMPANIES_def)
  from load_timeout_row [of 0 sample_world, OF k a]
  have "scrape_tweets (timeline (sample_world 0)) = Inr []
        \<and> main sample_world ! 0
            = (company_name (COMPANIES ! 0), twitter_handle (COMPANIES ! 0),
               ''No tweets found'', 0, 0)
        \<and> length (main sample_world) = length COMPANIES
        \<and> main sample_world ! 2 = process_company (COMPANIES ! 2) (sample_world 2)"
    using two by blast
  then show ?thesis
    using c d n by simp
qed

section \<open>Faults of one target\<close>



end
